theory Spec2Isabelle
  imports Complex_Main "HOL-Library.Word"
begin

section \<open>The battle arena: data model\<close>

text \<open>
  The development follows \<^verbatim>\<open>src/pages/BattleArena.tsx\<close>: the rows it reads and writes
  through the store client, the three mutations (join, submit, end), the two effects
  (battle state, countdown) and the role predicates of the view.

  Identifiers are strings. A nullable column is an \<open>option\<close>. A timestamp column is
  the number of milliseconds that \<^verbatim>\<open>new Date(column).getTime()\<close> reads from it and that
  \<^verbatim>\<open>new Date().toISOString()\<close> writes into it; the current time is an argument of every
  operation that reads the clock. Numbers that the page computes with are integers
  (durations in minutes, times in milliseconds), all far inside the range where
  JavaScript's doubles are exact.

  A row carries the columns the page uses, under the names and values the page uses
  for them (\<^verbatim>\<open>start_time\<close>, \<^verbatim>\<open>end_time\<close>, the status \<^verbatim>\<open>waiting\<close>); the other columns
  of a row (problem, language, rating flag, creation time) are never written by the
  page, and the editor language that the battle effect copies from the row plays no part
  in any transition.
\<close>

record battle =
  id_b :: string
  creator_id :: string
  defender_id :: "string option"
  duration :: int
  status :: string
  winner_id :: "string option"
  start_time :: "int option"
  end_time :: "int option"

text \<open>The text of a solution is a JavaScript string: a sequence of UTF-16 code units.\<close>

type_synonym js_string = "16 word list"

record solution =
  id_s :: string
  battle_id :: string
  user_id :: string
  code :: js_string
  submitted_at :: int

record profile =
  id_p :: string
  name_p :: "string option"
  avatar_url_p :: "string option"
  rating_p :: int

text \<open>The \<^verbatim>\<open>Participant\<close> interface of the page, and the signed-in user (only its id is read).\<close>

record participant =
  id_pt :: string
  name :: "string option"
  avatar_url :: "string option"
  rating :: int

record user =
  id_u :: string

subsection \<open>JavaScript truthiness and \<^verbatim>\<open>trim\<close>\<close>

text \<open>A string is truthy when it is not empty; \<^verbatim>\<open>null\<close> and \<^verbatim>\<open>undefined\<close> are falsy.\<close>

definition truthy :: "'a list option \<Rightarrow> bool" where
  "truthy v = (case v of None \<Rightarrow> False | Some s \<Rightarrow> s \<noteq> [])"

text \<open>
  \<^verbatim>\<open>String.prototype.trim\<close> strips white space and line terminators from both ends:
  TAB, LF, VT, FF, CR, SP, NBSP, U+1680, U+2000 to U+200A, U+2028, U+2029, U+202F,
  U+205F, U+3000 and U+FEFF.
\<close>

definition isWhiteSpace :: "16 word \<Rightarrow> bool" where
  "isWhiteSpace c =
     (c \<in> set [0x0009, 0x000A, 0x000B, 0x000C, 0x000D, 0x0020, 0x00A0, 0x1680,
                0x2000, 0x2001, 0x2002, 0x2003, 0x2004, 0x2005, 0x2006, 0x2007,
                0x2008, 0x2009, 0x200A, 0x2028, 0x2029, 0x202F, 0x205F, 0x3000, 0xFEFF])"

definition trim :: "js_string \<Rightarrow> js_string" where
  "trim s = rev (dropWhile isWhiteSpace (rev (dropWhile isWhiteSpace s)))"

section \<open>The remote store\<close>

text \<open>
  The page holds no battle data of its own: every operation is one request to the store
  client. The store is the tables the page names, and the write requests it has received.
\<close>

datatype request = Insert string | Update string

record store =
  battles :: "battle list"
  solutions :: "solution list"
  profiles :: "profile list"
  requests :: "request list"

text \<open>
  The store answers a request with a row or with an error object whose \<^verbatim>\<open>code\<close> the page
  can read: \<^verbatim>\<open>PGRST116\<close> when a request for a single row does not find exactly one, and
  \<^verbatim>\<open>23505\<close> when an insert violates a uniqueness constraint.
\<close>

datatype pg_error = PGRST116 | PG23505

text \<open>
  Modelled from the spec: the Remote Store Client, which is a hosted service and not code
  of the repository. It offers \<^verbatim>\<open>read(entity, filter)\<close>, \<^verbatim>\<open>insert(entity, row)\<close> and
  \<^verbatim>\<open>update(entity, filter, patch)\<close>; a filter is the conjunction of the \<^verbatim>\<open>.eq\<close> calls of
  the request, and \<^verbatim>\<open>.single()\<close> asks for exactly one row. The store owns the schema
  and enforces its constraints: the primary key on the id of a row, which the store
  generates, and for solutions the invariant of at most one solution per battle and user.
\<close>

definition single :: "'a list \<Rightarrow> pg_error + 'a" where
  "single rows = (case rows of [r] \<Rightarrow> Inr r | _ \<Rightarrow> Inl PGRST116)"

definition select_single :: "('a \<Rightarrow> bool) \<Rightarrow> 'a list \<Rightarrow> pg_error + 'a" where
  "select_single flt rows = single (filter flt rows)"

text \<open>
  An update patches every row the filter matches and answers with the patched rows;
  when they are not exactly one, the single-row request fails and nothing is written.
\<close>

definition update_single ::
  "('a \<Rightarrow> bool) \<Rightarrow> ('a \<Rightarrow> 'a) \<Rightarrow> 'a list \<Rightarrow> pg_error + ('a \<times> 'a list)" where
  "update_single flt patch rows =
     (case single (map patch (filter flt rows)) of
        Inl e \<Rightarrow> Inl e
      | Inr r \<Rightarrow> Inr (r, map (\<lambda>x. if flt x then patch x else x) rows))"

text \<open>
  Modelled from the spec: the \<^verbatim>\<open>solutions\<close> table, which no file of the repository
  declares. Its rows are unique in the id and, by the invariant of at most one Solution
  per (battle, user) pair, in the pair of battle and user.
\<close>

definition solutions_clash :: "solution \<Rightarrow> solution \<Rightarrow> bool" where
  "solutions_clash r r' =
     (id_s r = id_s r' \<or> (battle_id r = battle_id r' \<and> user_id r = user_id r'))"

text \<open>
  Modelled from the spec: \<^verbatim>\<open>insert(entity, row)\<close> of the Remote Store Client. An insert
  appends the row, unless it clashes with a stored row on a uniqueness constraint of the
  table; then the store answers \<^verbatim>\<open>23505\<close> and writes nothing.
\<close>

definition insert_single ::
  "('a \<Rightarrow> 'a \<Rightarrow> bool) \<Rightarrow> 'a \<Rightarrow> 'a list \<Rightarrow> pg_error + ('a \<times> 'a list)" where
  "insert_single clash row rows =
     (if list_ex (clash row) rows then Inl PG23505 else Inr (row, rows @ [row]))"

section \<open>Queries and mutations of the page\<close>

datatype error =
    Required
  | StoreError pg_error
  | ValidationFailure
  | NotLoggedIn


text \<open>
  \<^verbatim>\<open>submitSolutionMutation\<close>: one insert into \<^verbatim>\<open>solutions\<close> of the editor's text as it is;
  \<open>newId\<close> is the id the store generates for the row.
\<close>

definition submitSolutionMutation ::
  "string option \<Rightarrow> user option \<Rightarrow> js_string \<Rightarrow> int \<Rightarrow> string \<Rightarrow> store \<Rightarrow> (error + solution) \<times> store" where
  "submitSolutionMutation battleId usr text now newId st =
     (case (battleId, usr) of
        (Some bid, Some u) \<Rightarrow>
          if bid = [] \<or> id_u u = [] then (Inl Required, st)
          else
            (let row = \<lparr>id_s = newId, battle_id = bid, user_id = id_u u, code = text,
                        submitted_at = now\<rparr>;
                 st' = st\<lparr>requests := requests st @ [Insert ''solutions'']\<rparr>
             in case insert_single solutions_clash row (solutions st) of
                  Inl e \<Rightarrow> (Inl (StoreError e), st')
                | Inr (r, rows) \<Rightarrow> (Inr r, st'\<lparr>solutions := rows\<rparr>))
      | _ \<Rightarrow> (Inl Required, st))"

text \<open>
  \<^verbatim>\<open>joinBattleMutation\<close>: the update is scoped by the id and by the status \<^verbatim>\<open>waiting\<close>.
\<close>

definition joinBattleMutation ::
  "string option \<Rightarrow> user option \<Rightarrow> int \<Rightarrow> store \<Rightarrow> (error + battle) \<times> store" where
  "joinBattleMutation battleId usr now st =
     (case (battleId, usr) of
        (Some bid, Some u) \<Rightarrow>
          if bid = [] \<or> id_u u = [] then (Inl Required, st)
          else
            (let st' = st\<lparr>requests := requests st @ [Update ''battles'']\<rparr>
             in case update_single (\<lambda>b. id_b b = bid \<and> status b = ''waiting'')
                       (\<lambda>b. b\<lparr>defender_id := Some (id_u u), status := ''in_progress'',
                               start_time := Some now\<rparr>)
                       (battles st) of
                  Inl e \<Rightarrow> (Inl (StoreError e), st')
                | Inr (r, rows) \<Rightarrow> (Inr r, st'\<lparr>battles := rows\<rparr>))
      | _ \<Rightarrow> (Inl Required, st))"

text \<open>\<^verbatim>\<open>endBattleMutation\<close>: the update is scoped by the id alone.\<close>

definition endBattleMutation ::
  "string option \<Rightarrow> string \<Rightarrow> int \<Rightarrow> store \<Rightarrow> (error + battle) \<times> store" where
  "endBattleMutation battleId winnerId now st =
     (case battleId of
        Some bid \<Rightarrow>
          if bid = [] then (Inl Required, st)
          else
            (let st' = st\<lparr>requests := requests st @ [Update ''battles'']\<rparr>
             in case update_single (\<lambda>b. id_b b = bid)
                       (\<lambda>b. b\<lparr>status := ''completed'', end_time := Some now,
                               winner_id := Some winnerId\<rparr>)
                       (battles st) of
                  Inl e \<Rightarrow> (Inl (StoreError e), st')
                | Inr (r, rows) \<Rightarrow> (Inr r, st'\<lparr>battles := rows\<rparr>))
      | None \<Rightarrow> (Inl Required, st))"

subsection \<open>Handlers\<close>

text \<open>
  The handlers catch what the mutation throws, so the page goes on; the outcome is kept
  here as a value.
\<close>

definition handleJoinBattle ::
  "string option \<Rightarrow> user option \<Rightarrow> int \<Rightarrow> store \<Rightarrow> (error + battle) \<times> store" where
  "handleJoinBattle battleId usr now st =
     (case usr of
        None \<Rightarrow> (Inl NotLoggedIn, st)
      | Some u \<Rightarrow> joinBattleMutation battleId usr now st)"

definition handleSubmitSolution ::
  "string option \<Rightarrow> user option \<Rightarrow> js_string \<Rightarrow> int \<Rightarrow> string \<Rightarrow> store \<Rightarrow> (error + solution) \<times> store" where
  "handleSubmitSolution battleId usr text now newId st =
     (if trim text = [] then (Inl ValidationFailure, st)
      else submitSolutionMutation battleId usr text now newId st)"

definition handleEndBattle ::
  "string option \<Rightarrow> string \<Rightarrow> int \<Rightarrow> store \<Rightarrow> (error + battle) \<times> store" where
  "handleEndBattle battleId winnerId now st = endBattleMutation battleId winnerId now st"

section \<open>The view\<close>

text \<open>
  The state the component keeps between renders. The battle, the signed-in user and the
  viewer's solution are not part of it: they are the results of the queries, and every
  function below takes them as arguments.
\<close>

record arena =
  isBattleReady :: bool
  isBattleActive :: bool
  isBattleOver :: bool
  timeRemaining :: "int option"
  winner :: "participant option"
  loser :: "participant option"

definition initialArena :: arena where
  "initialArena = \<lparr>isBattleReady = False, isBattleActive = False, isBattleOver = False,
                    timeRemaining = None, winner = None, loser = None\<rparr>"

subsection \<open>The battle effect\<close>

definition fetchProfile :: "string \<Rightarrow> store \<Rightarrow> pg_error + profile" where
  "fetchProfile pid st = select_single (\<lambda>p. id_p p = pid) (profiles st)"

definition toParticipant :: "profile \<Rightarrow> participant" where
  "toParticipant d = \<lparr>id_pt = id_p d, name = name_p d, avatar_url = avatar_url_p d,
                       rating = rating_p d\<rparr>"

text \<open>
  \<open>loserId\<close> is the expression of that name inside \<^verbatim>\<open>setParticipants\<close>, for the
  recorded winner \<open>w\<close>.
\<close>

definition loserId :: "battle \<Rightarrow> string \<Rightarrow> string option" where
  "loserId b w = (if creator_id b = w then defender_id b else Some (creator_id b))"

definition setParticipants :: "store \<Rightarrow> battle \<Rightarrow> arena \<Rightarrow> arena" where
  "setParticipants st b a =
     (case winner_id b of
        None \<Rightarrow> a
      | Some w \<Rightarrow>
          if w = [] then a
          else
            (case fetchProfile w st of
               Inl winnerError \<Rightarrow> a
             | Inr winnerData \<Rightarrow>
                 (let a' = a\<lparr>winner := Some (toParticipant winnerData)\<rparr>
                  in case loserId b w of
                       None \<Rightarrow> a'
                     | Some l \<Rightarrow>
                         if l = [] then a'
                         else
                           (case fetchProfile l st of
                              Inl loserError \<Rightarrow> a'
                            | Inr loserData \<Rightarrow> a'\<lparr>loser := Some (toParticipant loserData)\<rparr>))))"

definition battleEffect :: "store \<Rightarrow> battle \<Rightarrow> arena \<Rightarrow> arena" where
  "battleEffect st b a =
     (let a' = a\<lparr>isBattleReady := (status b = ''in_progress'' \<or> status b = ''completed''),
                 isBattleActive := (status b = ''in_progress''),
                 isBattleOver := (status b = ''completed'')\<rparr>
      in if status b = ''completed'' then setParticipants st b a' else a')"

subsection \<open>The countdown effect\<close>

text \<open>
  \<^verbatim>\<open>determineWinner\<close> answers the winner it passes to \<^verbatim>\<open>endBattleMutation.mutateAsync\<close>,
  or nothing when it does not call it.
\<close>

definition determineWinner :: "user \<Rightarrow> solution option \<Rightarrow> battle \<Rightarrow> string option" where
  "determineWinner u sol b =
     (case sol of
        None \<Rightarrow>
          (let opponentId = (if creator_id b = id_u u then defender_id b else Some (creator_id b))
           in if truthy opponentId then opponentId else None)
      | Some s \<Rightarrow> Some (id_u u))"

text \<open>
  One call of \<^verbatim>\<open>calculateTimeRemaining\<close> at clock reading \<open>now\<close>: the new state, and
  the winner of the end attempt it starts, if it starts one.
\<close>

definition calculateTimeRemaining ::
  "user option \<Rightarrow> solution option \<Rightarrow> battle \<Rightarrow> int \<Rightarrow> arena \<Rightarrow> arena \<times> string option" where
  "calculateTimeRemaining usr sol b now a =
     (case start_time b of
        None \<Rightarrow> (a, None)
      | Some startTime \<Rightarrow>
          (let endTime = startTime + duration b * 60 * 1000;
               timeLeft = endTime - now
           in if timeLeft > 0
              then (a\<lparr>timeRemaining := Some \<lceil>real_of_int timeLeft / 1000\<rceil>\<rparr>, None)
              else (a\<lparr>timeRemaining := Some 0\<rparr>,
                    if \<not> truthy (winner_id b)
                    then (case usr of None \<Rightarrow> None | Some u \<Rightarrow> determineWinner u sol b)
                    else None)))"

text \<open>
  One call of \<^verbatim>\<open>calculateTimeRemaining\<close> by the effect, under the guard of the effect.
  The effect makes such a call each time it runs, and then one every second from its
  interval; it runs again whenever one of its dependencies has changed.
\<close>

definition countdownEffect ::
  "user option \<Rightarrow> solution option \<Rightarrow> battle \<Rightarrow> int \<Rightarrow> arena \<Rightarrow> arena \<times> string option" where
  "countdownEffect usr sol b now a =
     (if duration b \<noteq> 0 \<and> start_time b \<noteq> None \<and> isBattleActive a
      then calculateTimeRemaining usr sol b now a
      else (a, None))"

subsection \<open>Role predicates\<close>

definition isCreator :: "user option \<Rightarrow> battle \<Rightarrow> bool" where
  "isCreator usr b = (case usr of None \<Rightarrow> False | Some u \<Rightarrow> id_u u = creator_id b)"

definition isDefender :: "user option \<Rightarrow> battle \<Rightarrow> bool" where
  "isDefender usr b = (case usr of None \<Rightarrow> False | Some u \<Rightarrow> Some (id_u u) = defender_id b)"

definition hasJoined :: "user option \<Rightarrow> battle \<Rightarrow> bool" where
  "hasJoined usr b = (isCreator usr b \<or> isDefender usr b)"

definition canJoin :: "user option \<Rightarrow> battle \<Rightarrow> bool" where
  "canJoin usr b = (\<not> hasJoined usr b \<and> status b = ''waiting'')"

definition canSubmit :: "arena \<Rightarrow> user option \<Rightarrow> battle \<Rightarrow> solution option \<Rightarrow> bool" where
  "canSubmit a usr b sol = (hasJoined usr b \<and> isBattleActive a \<and> sol = None)"

definition canEnd :: "arena \<Rightarrow> user option \<Rightarrow> battle \<Rightarrow> solution option \<Rightarrow> bool" where
  "canEnd a usr b sol = (hasJoined usr b \<and> isBattleActive a \<and> sol \<noteq> None)"

definition hasEnded :: "battle \<Rightarrow> bool" where
  "hasEnded b = (status b = ''completed'')"

section \<open>Auxiliary facts\<close>

text \<open>
  The battle effect leaves the view's activity flag equal to the test on the status.
\<close>

lemma isBattleActive_setParticipants:
  "isBattleActive (setParticipants st b a) = isBattleActive a"
  by (simp add: setParticipants_def Let_def split: option.splits sum.splits)

lemma isBattleActive_battleEffect:
  "isBattleActive (battleEffect st b a) = (status b = ''in_progress'')"
  by (simp add: battleEffect_def Let_def isBattleActive_setParticipants)

text \<open>
  A filter on a key column of a table with distinct keys finds the one row that has the key.
\<close>

lemma filter_key_unique:
  "distinct (map key rows) \<Longrightarrow> r \<in> set rows \<Longrightarrow> P r \<Longrightarrow>
     filter (\<lambda>x. key x = key r \<and> P x) rows = [r]"
proof (induction rows)
  case Nil
  then show ?case by simp
next
  case (Cons x rows)
  show ?case
  proof (cases "x = r")
    case True
    from Cons.prems(1) True have "key r \<notin> set (map key rows)" by simp
    then have "\<forall>y\<in>set rows. key y \<noteq> key r" by (metis imageI set_map)
    then have "filter (\<lambda>y. key y = key r \<and> P y) rows = []"
      by (simp add: filter_empty_conv)
    with True Cons.prems show ?thesis by simp
  next
    case False
    with Cons.prems have r: "r \<in> set rows" and d: "distinct (map key rows)" by simp_all
    from r Cons.prems(1) have nx: "key x \<noteq> key r" by (metis distinct.simps(2) imageI list.simps(9) set_map)
    from Cons.IH [OF d r Cons.prems(3)] nx show ?thesis by simp
  qed
qed

lemma update_single_unique:
  assumes "distinct (map key rows)" and "r \<in> set rows" and "P r"
  shows "update_single (\<lambda>x. key x = key r \<and> P x) patch rows
           = Inr (patch r, map (\<lambda>x. if key x = key r \<and> P x then patch x else x) rows)"
  using filter_key_unique [of key rows r P] assms
  by (simp add: update_single_def single_def)

lemma filter_key_map_patch:
  "(\<And>x. key (patch x) = key x) \<Longrightarrow>
     filter (\<lambda>x. key x = k) (map (\<lambda>x. if flt x then patch x else x) rows)
       = map (\<lambda>x. if flt x then patch x else x) (filter (\<lambda>x. key x = k) rows)"
  by (induction rows) auto

lemma update_single_no_match:
  "filter flt rows = [] \<Longrightarrow> update_single flt patch rows = Inl PGRST116"
  by (simp add: update_single_def single_def)

text \<open>
  \<^verbatim>\<open>Math.ceil(timeLeft / 1000)\<close> on whole milliseconds, in integer arithmetic.
\<close>

lemma ceiling_ms: "\<lceil>real_of_int t / 1000\<rceil> = - ((- t) div 1000)"
  using ceiling_divide_eq_div [of t 1000] by simp

lemma timeRemaining_calculate:
  "start_time b = Some T \<Longrightarrow>
     timeRemaining (fst (calculateTimeRemaining usr sol b t a))
       = Some (if 0 < T + duration b * 60 * 1000 - t
               then - ((- (T + duration b * 60 * 1000 - t)) div 1000) else 0)"
  unfolding calculateTimeRemaining_def Let_def ceiling_ms by simp

section \<open>The end transition\<close>

text \<open>
  C1. The claim: the store update of the end transition is conditional on the prior status
  \<open>in_progress\<close>, so an end on a completed battle is rejected and the row is not
  mutated. \<^verbatim>\<open>endBattleMutation\<close> filters on the id alone, unlike \<^verbatim>\<open>joinBattleMutation\<close>,
  which also filters on the expected status. On a battle that is completed with winner
  \<open>C\<close>, an end naming \<open>D\<close> succeeds: the row now records winner \<open>D\<close> and the new
  end time.
\<close>

theorem end_overwrites_completed_battle:
  "endBattleMutation (Some ''b1'') ''D'' 2000
     \<lparr>battles = [\<lparr>id_b = ''b1'', creator_id = ''C'', defender_id = Some ''D'', duration = 10,
                   status = ''completed'', winner_id = Some ''C'', start_time = Some 0,
                   end_time = Some 1000\<rparr>],
      solutions = [], profiles = [], requests = []\<rparr>
   = (Inr \<lparr>id_b = ''b1'', creator_id = ''C'', defender_id = Some ''D'', duration = 10,
            status = ''completed'', winner_id = Some ''D'', start_time = Some 0,
            end_time = Some 2000\<rparr>,
      \<lparr>battles = [\<lparr>id_b = ''b1'', creator_id = ''C'', defender_id = Some ''D'', duration = 10,
                    status = ''completed'', winner_id = Some ''D'', start_time = Some 0,
                    end_time = Some 2000\<rparr>],
       solutions = [], profiles = [], requests = [Update ''battles'']\<rparr>)"
  by (simp add: endBattleMutation_def update_single_def single_def Let_def)

section \<open>The join transition\<close>

text \<open>
  C2. The join update is scoped by the id and by the status \<open>waiting\<close>. The store
  serves one request at a time, so two racing joins reach it in one order or the other;
  \<open>u1\<close> is the user whose request is served first. On a table with distinct ids, for a
  waiting battle: the first join succeeds and answers the row with defender \<open>u1\<close>,
  status \<open>in_progress\<close> and the start time of that request; the second join is answered
  with the error of a single-row request that matched nothing, and leaves the battles as
  the first join wrote them, so the battle has the one defender \<open>u1\<close>.
\<close>

theorem join_race_exactly_one:
  assumes ids: "distinct (map id_b (battles st))"
    and row: "b \<in> set (battles st)"
    and waiting: "status b = ''waiting''"
    and given: "id_b b \<noteq> []" "id_u u1 \<noteq> []" "id_u u2 \<noteq> []"
  shows "\<exists>st1. joinBattleMutation (Some (id_b b)) (Some u1) t1 st
             = (Inr (b\<lparr>defender_id := Some (id_u u1), status := ''in_progress'',
                       start_time := Some t1\<rparr>), st1)
           \<and> filter (\<lambda>x. id_b x = id_b b) (battles st1)
             = [b\<lparr>defender_id := Some (id_u u1), status := ''in_progress'',
                   start_time := Some t1\<rparr>]
           \<and> fst (joinBattleMutation (Some (id_b b)) (Some u2) t2 st1)
             = Inl (StoreError PGRST116)
           \<and> battles (snd (joinBattleMutation (Some (id_b b)) (Some u2) t2 st1)) = battles st1"
proof -
  let ?flt = "\<lambda>x. id_b x = id_b b \<and> status x = ''waiting''"
  let ?patch = "\<lambda>x::battle. x\<lparr>defender_id := Some (id_u u1), status := ''in_progress'',
                             start_time := Some t1\<rparr>"
  let ?rows = "map (\<lambda>x. if ?flt x then ?patch x else x) (battles st)"
  let ?st1 = "st\<lparr>requests := requests st @ [Update ''battles''], battles := ?rows\<rparr>"
  have upd: "update_single ?flt ?patch (battles st) = Inr (?patch b, ?rows)"
    using update_single_unique [of id_b "battles st" b "\<lambda>x. status x = ''waiting''" ?patch]
      ids row waiting
    by simp
  have first: "joinBattleMutation (Some (id_b b)) (Some u1) t1 st = (Inr (?patch b), ?st1)"
    using given upd by (simp add: joinBattleMutation_def Let_def)
  have "filter (\<lambda>x. id_b x = id_b b) ?rows
          = map (\<lambda>x. if ?flt x then ?patch x else x) (filter (\<lambda>x. id_b x = id_b b) (battles st))"
    by (rule filter_key_map_patch) simp
  also have "filter (\<lambda>x. id_b x = id_b b) (battles st) = [b]"
    using filter_key_unique [of id_b "battles st" b "\<lambda>x. True"] ids row by simp
  finally have one: "filter (\<lambda>x. id_b x = id_b b) ?rows = [?patch b]"
    using waiting by simp
  have "filter ?flt ?rows = filter (\<lambda>x. status x = ''waiting'') (filter (\<lambda>x. id_b x = id_b b) ?rows)"
    by (simp add: conj_commute)
  then have none: "filter ?flt (battles ?st1) = []"
    using one by simp
  have second: "joinBattleMutation (Some (id_b b)) (Some u2) t2 ?st1
                  = (Inl (StoreError PGRST116), ?st1\<lparr>requests := requests ?st1 @ [Update ''battles'']\<rparr>)"
    using given update_single_no_match [OF none]
    by (simp add: joinBattleMutation_def Let_def)
  show ?thesis
    using first one second by (intro exI [of _ ?st1]) simp
qed

text \<open>
  The theorem at a store with one waiting battle of creator \<open>C\<close>, joined by \<open>D\<close> and then by \<open>E\<close>.
\<close>

theorem join_race_exactly_one_witness:
  "fst (joinBattleMutation (Some ''b1'') (Some \<lparr>id_u = ''D''\<rparr>) 10
          \<lparr>battles = [\<lparr>id_b = ''b1'', creator_id = ''C'', defender_id = None, duration = 10,
                        status = ''waiting'', winner_id = None, start_time = None,
                        end_time = None\<rparr>],
           solutions = [], profiles = [], requests = []\<rparr>)
     = Inr \<lparr>id_b = ''b1'', creator_id = ''C'', defender_id = Some ''D'', duration = 10,
            status = ''in_progress'', winner_id = None, start_time = Some 10, end_time = None\<rparr>
   \<and> fst (joinBattleMutation (Some ''b1'') (Some \<lparr>id_u = ''E''\<rparr>) 20
            (snd (joinBattleMutation (Some ''b1'') (Some \<lparr>id_u = ''D''\<rparr>) 10
                    \<lparr>battles = [\<lparr>id_b = ''b1'', creator_id = ''C'', defender_id = None,
                                  duration = 10, status = ''waiting'', winner_id = None,
                                  start_time = None, end_time = None\<rparr>],
                     solutions = [], profiles = [], requests = []\<rparr>)))
     = Inl (StoreError PGRST116)"
  using join_race_exactly_one [of
      "\<lparr>battles = [\<lparr>id_b = ''b1'', creator_id = ''C'', defender_id = None, duration = 10,
                     status = ''waiting'', winner_id = None, start_time = None,
                     end_time = None\<rparr>],
        solutions = [], profiles = [], requests = []\<rparr>"
      "\<lparr>id_b = ''b1'', creator_id = ''C'', defender_id = None, duration = 10,
        status = ''waiting'', winner_id = None, start_time = None, end_time = None\<rparr>"
      "\<lparr>id_u = ''D''\<rparr>" "\<lparr>id_u = ''E''\<rparr>" 10 20]
  by auto

section \<open>The countdown\<close>

text \<open>
  C3. The battle is in progress with no winner recorded, both participants are present
  and distinct, the viewer is one of them, and the clock has reached the deadline. A
  viewer without a solution starts the end transition with the other participant as
  winner; a viewer with a solution starts it with the viewer as winner.
\<close>

theorem timeout_winner:
  assumes "status b = ''in_progress''" and "winner_id b = None"
    and "start_time b = Some T" and "duration b \<noteq> 0"
    and "T + duration b * 60 * 1000 \<le> now"
    and "defender_id b = Some d" and "creator_id b \<noteq> d"
    and "creator_id b \<noteq> []" and "d \<noteq> []"
    and "id_u u = creator_id b \<or> id_u u = d"
  shows "snd (countdownEffect (Some u) None b now (battleEffect st b a))
           = Some (if id_u u = creator_id b then d else creator_id b)
         \<and> (if id_u u = creator_id b then d else creator_id b) \<noteq> id_u u
         \<and> snd (countdownEffect (Some u) (Some s) b now (battleEffect st b a)) = Some (id_u u)"
  using assms
  by (auto simp: countdownEffect_def isBattleActive_battleEffect calculateTimeRemaining_def
      determineWinner_def truthy_def Let_def)

text \<open>
  The scenario of the specification: creator \<open>C\<close>, defender \<open>D\<close>, ten minutes, started
  at 0; \<open>D\<close> has no solution, and \<open>D\<close>'s client reads the clock at 601 s.
\<close>

theorem timeout_winner_witness:
  "snd (countdownEffect (Some \<lparr>id_u = ''D''\<rparr>) None
          \<lparr>id_b = ''b1'', creator_id = ''C'', defender_id = Some ''D'', duration = 10,
            status = ''in_progress'', winner_id = None, start_time = Some 0, end_time = None\<rparr>
          601000
          (battleEffect \<lparr>battles = [], solutions = [], profiles = [], requests = []\<rparr>
             \<lparr>id_b = ''b1'', creator_id = ''C'', defender_id = Some ''D'', duration = 10,
               status = ''in_progress'', winner_id = None, start_time = Some 0, end_time = None\<rparr>
             initialArena))
     = Some ''C''"
  using timeout_winner [of "\<lparr>id_b = ''b1'', creator_id = ''C'', defender_id = Some ''D'',
            duration = 10, status = ''in_progress'', winner_id = None, start_time = Some 0,
            end_time = None\<rparr>" 0 601000 "''D''" "\<lparr>id_u = ''D''\<rparr>"
            "\<lparr>battles = [], solutions = [], profiles = [], requests = []\<rparr>" initialArena]
  by simp

text \<open>
  C4. The claim: in a viewer session the end attempt is started exactly once, when the
  countdown first reaches a remaining time that is not positive. A call of
  \<^verbatim>\<open>calculateTimeRemaining\<close> keeps no record of an attempt it has started: the test
  \<^verbatim>\<open>!battle.winner_id\<close> reads the battle the effect closed over, which changes only when a
  refetch arrives. Here \<open>D\<close>'s client, ten minutes after the start at 0 and without a
  solution, makes its first call past the deadline and starts an end attempt naming
  \<open>C\<close>; the next call on the same battle, from the state the first call left, starts
  another, whether it is the call of the interval a second later or the call of the
  effect running again at once.
\<close>

theorem auto_resolution_repeats:
  "snd (countdownEffect (Some \<lparr>id_u = ''D''\<rparr>) None
          \<lparr>id_b = ''b1'', creator_id = ''C'', defender_id = Some ''D'', duration = 10,
            status = ''in_progress'', winner_id = None, start_time = Some 0, end_time = None\<rparr>
          600001
          (battleEffect \<lparr>battles = [], solutions = [], profiles = [], requests = []\<rparr>
             \<lparr>id_b = ''b1'', creator_id = ''C'', defender_id = Some ''D'', duration = 10,
               status = ''in_progress'', winner_id = None, start_time = Some 0, end_time = None\<rparr>
             initialArena))
     = Some ''C''
   \<and> snd (countdownEffect (Some \<lparr>id_u = ''D''\<rparr>) None
          \<lparr>id_b = ''b1'', creator_id = ''C'', defender_id = Some ''D'', duration = 10,
            status = ''in_progress'', winner_id = None, start_time = Some 0, end_time = None\<rparr>
          601001
          (fst (countdownEffect (Some \<lparr>id_u = ''D''\<rparr>) None
                  \<lparr>id_b = ''b1'', creator_id = ''C'', defender_id = Some ''D'', duration = 10,
            status = ''in_progress'', winner_id = None, start_time = Some 0, end_time = None\<rparr>
                  600001
                  (battleEffect \<lparr>battles = [], solutions = [], profiles = [], requests = []\<rparr>
             \<lparr>id_b = ''b1'', creator_id = ''C'', defender_id = Some ''D'', duration = 10,
               status = ''in_progress'', winner_id = None, start_time = Some 0, end_time = None\<rparr>
             initialArena))))
     = Some ''C''
   \<and> snd (countdownEffect (Some \<lparr>id_u = ''D''\<rparr>) None
          \<lparr>id_b = ''b1'', creator_id = ''C'', defender_id = Some ''D'', duration = 10,
            status = ''in_progress'', winner_id = None, start_time = Some 0, end_time = None\<rparr>
          600001
          (fst (countdownEffect (Some \<lparr>id_u = ''D''\<rparr>) None
                  \<lparr>id_b = ''b1'', creator_id = ''C'', defender_id = Some ''D'', duration = 10,
            status = ''in_progress'', winner_id = None, start_time = Some 0, end_time = None\<rparr>
                  600001
                  (battleEffect \<lparr>battles = [], solutions = [], profiles = [], requests = []\<rparr>
             \<lparr>id_b = ''b1'', creator_id = ''C'', defender_id = Some ''D'', duration = 10,
               status = ''in_progress'', winner_id = None, start_time = Some 0, end_time = None\<rparr>
             initialArena))))
     = Some ''C''"
  by (simp add: countdownEffect_def isBattleActive_battleEffect calculateTimeRemaining_def
      determineWinner_def truthy_def Let_def)

text \<open>
  C5. For a battle in progress with start \<open>T\<close> and a duration of \<open>D\<close> minutes, the view
  has run the battle effect and the countdown is called at \<open>now\<close>. While the remaining
  milliseconds are positive, the seconds shown are the least whole number of seconds that
  covers them; five seconds before the deadline they are 5, one millisecond after it 0.
\<close>

theorem countdown_arithmetic:
  assumes "status b = ''in_progress''" and "start_time b = Some T" and "duration b = D"
    and "D \<noteq> 0"
  shows "(0 < T + D * 60 * 1000 - now \<longrightarrow>
            (\<exists>s. timeRemaining (fst (countdownEffect usr sol b now (battleEffect st b a))) = Some s
                 \<and> 1000 * (s - 1) < T + D * 60 * 1000 - now
                 \<and> T + D * 60 * 1000 - now \<le> 1000 * s))
         \<and> timeRemaining (fst (countdownEffect usr sol b (T + D * 60 * 1000 - 5000)
                                  (battleEffect st b a))) = Some 5
         \<and> timeRemaining (fst (countdownEffect usr sol b (T + D * 60 * 1000 + 1)
                                  (battleEffect st b a))) = Some 0"
proof -
  have eff: "countdownEffect usr sol b t (battleEffect st b a)
               = calculateTimeRemaining usr sol b t (battleEffect st b a)" for t
    using assms by (simp add: countdownEffect_def isBattleActive_battleEffect)
  have run: "timeRemaining (fst (countdownEffect usr sol b t (battleEffect st b a)))
               = Some (if 0 < T + D * 60 * 1000 - t then - ((- (T + D * 60 * 1000 - t)) div 1000) else 0)"
    for t
    using timeRemaining_calculate [OF assms(2), of usr sol t "battleEffect st b a"]
    by (simp only: eff assms(3))
  have up: "1000 * (- ((- t) div 1000) - 1) < t \<and> t \<le> 1000 * (- ((- t) div 1000))" for t :: int
  proof -
    define q r where "q = (- t) div 1000" and "r = (- t) mod 1000"
    have "- t = 1000 * q + r" and "0 \<le> r" and "r < 1000"
      by (simp_all add: q_def r_def)
    then have "1000 * (- q - 1) < t \<and> t \<le> 1000 * (- q)" by auto
    then show ?thesis by (simp only: q_def)
  qed
  show ?thesis
    unfolding run using up [of "T + D * 60 * 1000 - now"] by simp
qed

text \<open>
  The theorem at a battle of ten minutes started at 0.
\<close>

theorem countdown_arithmetic_witness:
  "timeRemaining (fst (countdownEffect None None
          \<lparr>id_b = ''b1'', creator_id = ''C'', defender_id = Some ''D'', duration = 10,
            status = ''in_progress'', winner_id = None, start_time = Some 0, end_time = None\<rparr>
          595000
          (battleEffect \<lparr>battles = [], solutions = [], profiles = [], requests = []\<rparr>
             \<lparr>id_b = ''b1'', creator_id = ''C'', defender_id = Some ''D'', duration = 10,
               status = ''in_progress'', winner_id = None, start_time = Some 0, end_time = None\<rparr>
             initialArena))) = Some 5
   \<and> timeRemaining (fst (countdownEffect None None
          \<lparr>id_b = ''b1'', creator_id = ''C'', defender_id = Some ''D'', duration = 10,
            status = ''in_progress'', winner_id = None, start_time = Some 0, end_time = None\<rparr>
          600001
          (battleEffect \<lparr>battles = [], solutions = [], profiles = [], requests = []\<rparr>
             \<lparr>id_b = ''b1'', creator_id = ''C'', defender_id = Some ''D'', duration = 10,
               status = ''in_progress'', winner_id = None, start_time = Some 0, end_time = None\<rparr>
             initialArena))) = Some 0"
  using countdown_arithmetic [of
      "\<lparr>id_b = ''b1'', creator_id = ''C'', defender_id = Some ''D'', duration = 10,
        status = ''in_progress'', winner_id = None, start_time = Some 0, end_time = None\<rparr>"
      0 10 0 None None
      "\<lparr>battles = [], solutions = [], profiles = [], requests = []\<rparr>" initialArena]
  by simp

section \<open>Submissions\<close>



text \<open>
  C8. A submission whose text trims to the empty string is answered with the validation
  failure, and the store is as it was: no table has changed and no request has been
  added to those the store received.
\<close>

theorem empty_submission_rejected:
  "trim text = [] \<Longrightarrow>
     handleSubmitSolution battleId usr text now newId st = (Inl ValidationFailure, st)"
  by (simp add: handleSubmitSolution_def)

text \<open>
  The theorem at a text of a space, a line feed and an ideographic space.
\<close>

theorem empty_submission_rejected_witness:
  "trim [0x0020, 0x000A, 0x3000] = []
   \<and> handleSubmitSolution (Some ''b1'') (Some \<lparr>id_u = ''u1''\<rparr>) [0x0020, 0x000A, 0x3000] 5 ''s1''
        \<lparr>battles = [], solutions = [], profiles = [], requests = []\<rparr>
      = (Inl ValidationFailure, \<lparr>battles = [], solutions = [], profiles = [], requests = []\<rparr>)"
proof -
  have h: "trim [0x0020, 0x000A, 0x3000] = []"
    by (simp add: trim_def isWhiteSpace_def)
  show ?thesis using h empty_submission_rejected [OF h] by simp
qed



section \<open>Role predicates and the result view\<close>

text \<open>
  C7. Once the battle effect has run on the fetched battle, the three predicates of the
  view are the stated combinations of \<open>hasJoined\<close>, the status and the presence of the
  viewer's solution, where \<open>hasJoined\<close> says that the signed-in user is the creator or
  the defender; so a viewer who has not joined a waiting battle can join, and can
  neither submit nor end.
\<close>

theorem role_predicates:
  "canJoin usr b = (\<not> hasJoined usr b \<and> status b = ''waiting'')
   \<and> canSubmit (battleEffect st b a) usr b sol
       = (hasJoined usr b \<and> status b = ''in_progress'' \<and> sol = None)
   \<and> canEnd (battleEffect st b a) usr b sol
       = (hasJoined usr b \<and> status b = ''in_progress'' \<and> sol \<noteq> None)
   \<and> hasJoined usr b
       = (\<exists>u. usr = Some u \<and> (id_u u = creator_id b \<or> defender_id b = Some (id_u u)))
   \<and> (\<not> hasJoined usr b \<and> status b = ''waiting'' \<longrightarrow>
        canJoin usr b \<and> \<not> canSubmit (battleEffect st b a) usr b sol
        \<and> \<not> canEnd (battleEffect st b a) usr b sol)"
  by (auto simp: canJoin_def canSubmit_def canEnd_def hasJoined_def isCreator_def
      isDefender_def isBattleActive_battleEffect split: option.splits)

text \<open>
  The theorem at a signed-in user \<open>E\<close> and a waiting battle of creator \<open>C\<close>.
\<close>

theorem role_predicates_witness:
  "canJoin (Some \<lparr>id_u = ''E''\<rparr>)
     \<lparr>id_b = ''b1'', creator_id = ''C'', defender_id = None, duration = 10,
       status = ''waiting'', winner_id = None, start_time = None, end_time = None\<rparr>
   \<and> \<not> canSubmit
         (battleEffect \<lparr>battles = [], solutions = [], profiles = [], requests = []\<rparr>
            \<lparr>id_b = ''b1'', creator_id = ''C'', defender_id = None, duration = 10,
              status = ''waiting'', winner_id = None, start_time = None, end_time = None\<rparr>
            initialArena)
         (Some \<lparr>id_u = ''E''\<rparr>)
         \<lparr>id_b = ''b1'', creator_id = ''C'', defender_id = None, duration = 10,
           status = ''waiting'', winner_id = None, start_time = None, end_time = None\<rparr>
         None
   \<and> \<not> canEnd
         (battleEffect \<lparr>battles = [], solutions = [], profiles = [], requests = []\<rparr>
            \<lparr>id_b = ''b1'', creator_id = ''C'', defender_id = None, duration = 10,
              status = ''waiting'', winner_id = None, start_time = None, end_time = None\<rparr>
            initialArena)
         (Some \<lparr>id_u = ''E''\<rparr>)
         \<lparr>id_b = ''b1'', creator_id = ''C'', defender_id = None, duration = 10,
           status = ''waiting'', winner_id = None, start_time = None, end_time = None\<rparr>
         None"
  using role_predicates [of "Some \<lparr>id_u = ''E''\<rparr>"
      "\<lparr>id_b = ''b1'', creator_id = ''C'', defender_id = None, duration = 10,
        status = ''waiting'', winner_id = None, start_time = None, end_time = None\<rparr>"
      "\<lparr>battles = [], solutions = [], profiles = [], requests = []\<rparr>" initialArena None]
  by simp

text \<open>
  C10. The battle is completed, its winner is recorded and the winner's profile is found.
  When the winner is the creator, the loser shown is the defender's profile; otherwise it
  is the creator's profile; and when the winner is the creator and no defender is
  recorded, the loser of the view is left as it was.
\<close>

theorem loser_is_other_participant:
  assumes "status b = ''completed''" and "winner_id b = Some w" and "w \<noteq> []"
    and "fetchProfile w st = Inr winnerData"
  shows "(creator_id b = w \<and> defender_id b = Some d \<and> d \<noteq> [] \<and> fetchProfile d st = Inr loserData
            \<longrightarrow> loser (battleEffect st b a) = Some (toParticipant loserData)
                \<and> id_pt (toParticipant loserData) = d)
         \<and> (creator_id b \<noteq> w \<and> creator_id b \<noteq> [] \<and> fetchProfile (creator_id b) st = Inr loserData
            \<longrightarrow> loser (battleEffect st b a) = Some (toParticipant loserData)
                \<and> id_pt (toParticipant loserData) = creator_id b)
         \<and> (creator_id b = w \<and> defender_id b = None \<longrightarrow> loser (battleEffect st b a) = loser a)"
proof -
  have key: "id_p p = k" if "fetchProfile k st = Inr p" for k p
  proof -
    from that have "filter (\<lambda>p. id_p p = k) (profiles st) = [p]"
      by (auto simp: fetchProfile_def select_single_def single_def split: list.splits)
    then have "p \<in> set (filter (\<lambda>p. id_p p = k) (profiles st))" by simp
    then show ?thesis by simp
  qed
  show ?thesis
    using assms key [of d loserData] key [of "creator_id b" loserData]
    by (auto simp: battleEffect_def setParticipants_def loserId_def toParticipant_def Let_def)
qed

text \<open>
  The theorem at a completed battle of creator \<open>C\<close> and defender \<open>D\<close> won by \<open>C\<close>, at
  the same battle won by \<open>D\<close>, and at a completed battle without defender.
\<close>

theorem loser_is_other_participant_witness:
  "loser (battleEffect
            \<lparr>battles = [], solutions = [],
             profiles = [\<lparr>id_p = ''C'', name_p = None, avatar_url_p = None, rating_p = 1000\<rparr>,
                         \<lparr>id_p = ''D'', name_p = None, avatar_url_p = None, rating_p = 900\<rparr>],
             requests = []\<rparr>
            \<lparr>id_b = ''b1'', creator_id = ''C'', defender_id = Some ''D'', duration = 10,
              status = ''completed'', winner_id = Some ''C'', start_time = Some 0,
              end_time = Some 5\<rparr>
            initialArena)
     = Some \<lparr>id_pt = ''D'', name = None, avatar_url = None, rating = 900\<rparr>
   \<and> loser (battleEffect
            \<lparr>battles = [], solutions = [],
             profiles = [\<lparr>id_p = ''C'', name_p = None, avatar_url_p = None, rating_p = 1000\<rparr>,
                         \<lparr>id_p = ''D'', name_p = None, avatar_url_p = None, rating_p = 900\<rparr>],
             requests = []\<rparr>
            \<lparr>id_b = ''b1'', creator_id = ''C'', defender_id = Some ''D'', duration = 10,
              status = ''completed'', winner_id = Some ''D'', start_time = Some 0,
              end_time = Some 5\<rparr>
            initialArena)
     = Some \<lparr>id_pt = ''C'', name = None, avatar_url = None, rating = 1000\<rparr>
   \<and> loser (battleEffect
            \<lparr>battles = [], solutions = [],
             profiles = [\<lparr>id_p = ''C'', name_p = None, avatar_url_p = None, rating_p = 1000\<rparr>,
                         \<lparr>id_p = ''D'', name_p = None, avatar_url_p = None, rating_p = 900\<rparr>],
             requests = []\<rparr>
            \<lparr>id_b = ''b1'', creator_id = ''C'', defender_id = None, duration = 10,
              status = ''completed'', winner_id = Some ''C'', start_time = Some 0,
              end_time = Some 5\<rparr>
            initialArena)
     = None"
proof -
  let ?st = "\<lparr>battles = [], solutions = [],
             profiles = [\<lparr>id_p = ''C'', name_p = None, avatar_url_p = None, rating_p = 1000\<rparr>,
                         \<lparr>id_p = ''D'', name_p = None, avatar_url_p = None, rating_p = 900\<rparr>],
             requests = []\<rparr>"
  let ?pc = "\<lparr>id_p = ''C'', name_p = None, avatar_url_p = None, rating_p = 1000\<rparr>"
  let ?pd = "\<lparr>id_p = ''D'', name_p = None, avatar_url_p = None, rating_p = 900\<rparr>"
  have c: "fetchProfile ''C'' ?st = Inr ?pc" and d: "fetchProfile ''D'' ?st = Inr ?pd"
    by (simp_all add: fetchProfile_def select_single_def single_def)
  show ?thesis
    using c d
      loser_is_other_participant [of
        "\<lparr>id_b = ''b1'', creator_id = ''C'', defender_id = Some ''D'', duration = 10,
          status = ''completed'', winner_id = Some ''C'', start_time = Some 0,
          end_time = Some 5\<rparr>" "''C''" ?st ?pc "''D''" ?pd initialArena]
      loser_is_other_participant [of
        "\<lparr>id_b = ''b1'', creator_id = ''C'', defender_id = Some ''D'', duration = 10,
          status = ''completed'', winner_id = Some ''D'', start_time = Some 0,
          end_time = Some 5\<rparr>" "''D''" ?st ?pd "''D''" ?pc initialArena]
      loser_is_other_participant [of
        "\<lparr>id_b = ''b1'', creator_id = ''C'', defender_id = None, duration = 10,
          status = ''completed'', winner_id = Some ''C'', start_time = Some 0,
          end_time = Some 5\<rparr>" "''C''" ?st ?pc "''D''" ?pd initialArena]
    by (simp add: toParticipant_def initialArena_def)
qed

end
